theory Spec2Isabelle
  imports Complex_Main "HOL-Library.Word"
begin

unbundle bit_operations_syntax

section \<open>The player layer of adljack (sources/common.cc)\<close>

text \<open>
  The file models the run-time part of \<^verbatim>\<open>sources/common.cc\<close>: the MIDI dispatcher
  \<^verbatim>\<open>generic_play_midi\<close>, the block generator \<^verbatim>\<open>generic_generate_outputs\<close> and the three
  dynamic reconfiguration functions. The C++ globals become one record that every function
  takes and returns. \<^verbatim>\<open>unsigned\<close> is a 32-bit word and \<^verbatim>\<open>uint8_t\<close> an 8-bit word, so products
  such as \<^verbatim>\<open>i * stride\<close> and \<^verbatim>\<open>2 * nframes\<close> wrap around as they do in the program.
\<close>

type_synonym u8 = "8 word"
type_synonym u32 = "32 word"

subsection \<open>The synthesis backend, the filters and the floating-point types\<close>

text \<open>
  \<^verbatim>\<open>ADLMIDI_AudioFormat\<close>, as \<^verbatim>\<open>generic_generate_outputs\<close> fills it in. The only sample type
  the file uses is \<^verbatim>\<open>ADLMIDI_SampleType_F32\<close>.
\<close>

datatype sample_type = ADLMIDI_SampleType_F32

record audio_format =
  type :: sample_type
  containerSize :: u32
  sampleOffset :: u32

text \<open>
  \<^verbatim>\<open>Player_Traits<Pt>\<close> is declared in \<^verbatim>\<open>common.h\<close> and forwards to the synthesis library;
  neither is part of the file. The functions of the traits class that \<^verbatim>\<open>common.cc\<close> calls
  are therefore a parameter: a record of functions over an arbitrary backend state \<open>'p\<close>.
  The three configuration functions return the library's integer status together with the
  new backend state. Sample memory is a store from addresses (counted in \<^verbatim>\<open>float\<close>s) to
  values of the type \<open>'f\<close> of \<^verbatim>\<open>float\<close>; \<open>generate_format\<close> receives the two buffer pointers
  and returns the store it leaves behind.
\<close>

record ('p, 'f) traits =
  rt_note_on :: "'p \<Rightarrow> u8 \<Rightarrow> u8 \<Rightarrow> u8 \<Rightarrow> 'p"
  rt_note_off :: "'p \<Rightarrow> u8 \<Rightarrow> u8 \<Rightarrow> 'p"
  rt_note_aftertouch :: "'p \<Rightarrow> u8 \<Rightarrow> u8 \<Rightarrow> u8 \<Rightarrow> 'p"
  rt_channel_aftertouch :: "'p \<Rightarrow> u8 \<Rightarrow> u8 \<Rightarrow> 'p"
  rt_controller_change :: "'p \<Rightarrow> u8 \<Rightarrow> u8 \<Rightarrow> u8 \<Rightarrow> 'p"
  rt_program_change :: "'p \<Rightarrow> u8 \<Rightarrow> u32 \<Rightarrow> 'p"
  rt_pitchbend_ml :: "'p \<Rightarrow> u8 \<Rightarrow> u8 \<Rightarrow> u8 \<Rightarrow> 'p"
  panic :: "'p \<Rightarrow> 'p"
  set_num_chips :: "'p \<Rightarrow> u32 \<Rightarrow> int \<times> 'p"
  switch_emulator :: "'p \<Rightarrow> u32 \<Rightarrow> int \<times> 'p"
  open_bank_file :: "'p \<Rightarrow> string \<Rightarrow> int \<times> 'p"
  generate_format :: "'p \<Rightarrow> u32 \<Rightarrow> nat \<Rightarrow> nat \<Rightarrow> audio_format \<Rightarrow> (nat \<Rightarrow> 'f) \<Rightarrow> 'p \<times> (nat \<Rightarrow> 'f)"

text \<open>
  \<^verbatim>\<open>DcFilter\<close> and \<^verbatim>\<open>VuMonitor\<close> are classes of \<^verbatim>\<open>common.h\<close> as well, and the arithmetic of
  \<^verbatim>\<open>float\<close> and \<^verbatim>\<open>double\<close> is not that of the reals. Both are parameters too: \<open>'d\<close> is the
  type of \<^verbatim>\<open>double\<close>, \<open>'dc\<close> and \<open>'lv\<close> are the states of the two classes, and the record
  holds their \<^verbatim>\<open>process\<close> methods, the conversions and the operations the block generator
  uses.
\<close>

record ('f, 'd, 'dc, 'lv) dsp =
  dc_process :: "'dc \<Rightarrow> 'd \<Rightarrow> 'd \<times> 'dc"
  lv_process :: "'lv \<Rightarrow> 'd \<Rightarrow> 'd \<times> 'lv"
  double_of_float :: "'f \<Rightarrow> 'd"
  float_of_double :: "'d \<Rightarrow> 'f"
  double_of_count :: "int \<Rightarrow> 'd"
  double_of_unsigned :: "u32 \<Rightarrow> 'd"
  double_mult :: "'d \<Rightarrow> 'd \<Rightarrow> 'd"
  double_div :: "'d \<Rightarrow> 'd \<Rightarrow> 'd"
  double_1 :: 'd
  double_1e_6 :: 'd

subsection \<open>What the program does to its surroundings\<close>

text \<open>
  Every call into the backend, every operation on \<^verbatim>\<open>player_mutex\<close>, every reading of the
  clock and every step of the post-processing is appended to a trace, in program order.
  A backend call is recorded with the arguments the program passes.
\<close>

datatype backend_call =
    Rt_note_on u8 u8 u8
  | Rt_note_off u8 u8
  | Rt_note_aftertouch u8 u8 u8
  | Rt_channel_aftertouch u8 u8
  | Rt_controller_change u8 u8 u8
  | Rt_program_change u8 u32
  | Rt_pitchbend_ml u8 u8 u8
  | Panic
  | Set_num_chips u32
  | Switch_emulator u32
  | Open_bank_file string
  | Generate_format u32 nat nat audio_format

datatype event =
    Mutex_lock
  | Mutex_try_lock bool
  | Mutex_unlock
  | Clock_now
  | Backend backend_call
  | Dc_process nat
  | Lv_process nat
  | Store_lvcurrent
  | Store_cpuratio

subsection \<open>The globals\<close>

text \<open>
  \<^verbatim>\<open>struct Program\<close> is declared in \<^verbatim>\<open>common.h\<close>; the file writes its field \<^verbatim>\<open>gm\<close> only,
  with an \<^verbatim>\<open>unsigned\<close> value.
\<close>

record program =
  gm :: u32

text \<open>
  The globals of the file. \<open>player\<close> is the backend object behind the pointer of that name.
  \<open>player_mutex\<close> is \<open>True\<close> while another thread holds the mutex. \<open>mem\<close> is the sample
  memory the audio callback's buffers point into, and \<open>trace\<close> the record of effects.
\<close>

record ('p, 'f, 'd, 'dc, 'lv) globals =
  player :: 'p
  player_bank_file :: "string option"
  dcfilter :: "'dc \<times> 'dc"
  lvmonitor :: "'lv \<times> 'lv"
  lvcurrent :: "'d \<times> 'd"
  cpuratio :: 'd
  channel_map :: "program list"
  player_sample_rate :: u32
  player_emulator_id :: u32
  player_mutex :: bool
  mem :: "nat \<Rightarrow> 'f"
  trace :: "event list"

definition emit :: "event \<Rightarrow> ('p, 'f, 'd, 'dc, 'lv) globals \<Rightarrow> ('p, 'f, 'd, 'dc, 'lv) globals" where
  "emit e s = s\<lparr>trace := trace s @ [e]\<rparr>"

text \<open>
  \<^verbatim>\<open>std::unique_lock lock(player_mutex, std::try_to_lock)\<close> succeeds exactly when nobody
  holds the mutex. \<^verbatim>\<open>std::lock_guard\<close> waits until the holder has released it; the wait
  itself is not modelled, the state after it is. Both destructors, and \<^verbatim>\<open>lock.unlock()\<close>,
  release the mutex.
\<close>

definition try_to_lock :: "('p, 'f, 'd, 'dc, 'lv) globals \<Rightarrow> bool \<times> ('p, 'f, 'd, 'dc, 'lv) globals" where
  "try_to_lock s =
     (if player_mutex s then (False, emit (Mutex_try_lock False) s)
      else (True, emit (Mutex_try_lock True) (s\<lparr>player_mutex := True\<rparr>)))"

definition lock_guard :: "('p, 'f, 'd, 'dc, 'lv) globals \<Rightarrow> ('p, 'f, 'd, 'dc, 'lv) globals" where
  "lock_guard s = emit Mutex_lock (s\<lparr>player_mutex := True\<rparr>)"

definition unlock :: "('p, 'f, 'd, 'dc, 'lv) globals \<Rightarrow> ('p, 'f, 'd, 'dc, 'lv) globals" where
  "unlock s = emit Mutex_unlock (s\<lparr>player_mutex := False\<rparr>)"

text \<open>A call of a traits function that returns nothing the program looks at.\<close>

definition call :: "backend_call \<Rightarrow> ('p \<Rightarrow> 'p) \<Rightarrow> ('p, 'f, 'd, 'dc, 'lv) globals \<Rightarrow> ('p, 'f, 'd, 'dc, 'lv) globals" where
  "call c f s = emit (Backend c) (s\<lparr>player := f (player s)\<rparr>)"

text \<open>A call of a traits function whose integer status the program may test.\<close>

definition call_status :: "backend_call \<Rightarrow> ('p \<Rightarrow> int \<times> 'p) \<Rightarrow> ('p, 'f, 'd, 'dc, 'lv) globals \<Rightarrow> int \<times> ('p, 'f, 'd, 'dc, 'lv) globals" where
  "call_status c f s =
     (case f (player s) of (rc, p') \<Rightarrow> (rc, emit (Backend c) (s\<lparr>player := p'\<rparr>)))"

text \<open>The backend calls of a trace, in order.\<close>

fun backend_calls :: "event list \<Rightarrow> backend_call list" where
  "backend_calls [] = []"
| "backend_calls (Backend c # es) = c # backend_calls es"
| "backend_calls (e # es) = backend_calls es"

subsection \<open>generic_play_midi\<close>

text \<open>
  The C++ function receives a pointer \<^verbatim>\<open>msg\<close> and the number \<^verbatim>\<open>len\<close> of bytes behind it;
  here the message is the list of these bytes, and \<^verbatim>\<open>len\<close> is its length. The two
  functions below are the \<^verbatim>\<open>switch\<close>: a note-on with velocity zero falls through into the
  case of the note-off, which tests the length again. A status byte below \<open>0x80\<close> matches no
  case.
\<close>

definition case_note_off :: "('p, 'f) traits \<Rightarrow> u8 \<Rightarrow> u8 list \<Rightarrow> ('p, 'f, 'd, 'dc, 'lv) globals \<Rightarrow> ('p, 'f, 'd, 'dc, 'lv) globals" where
  "case_note_off tr channel msg s =
     (if length msg < 3 then s
      else call (Rt_note_off channel (msg ! 1)) (\<lambda>p. rt_note_off tr p channel (msg ! 1)) s)"

definition dispatch :: "('p, 'f) traits \<Rightarrow> u8 \<Rightarrow> u8 \<Rightarrow> u8 list \<Rightarrow> ('p, 'f, 'd, 'dc, 'lv) globals \<Rightarrow> ('p, 'f, 'd, 'dc, 'lv) globals" where
  "dispatch tr kind channel msg s =
     (if kind = 0b1001 then
        (if length msg < 3 then s
         else if msg ! 2 \<noteq> 0 then
           call (Rt_note_on channel (msg ! 1) (msg ! 2)) (\<lambda>p. rt_note_on tr p channel (msg ! 1) (msg ! 2)) s
         else case_note_off tr channel msg s)
      else if kind = 0b1000 then case_note_off tr channel msg s
      else if kind = 0b1010 then
        (if length msg < 3 then s
         else call (Rt_note_aftertouch channel (msg ! 1) (msg ! 2))
                (\<lambda>p. rt_note_aftertouch tr p channel (msg ! 1) (msg ! 2)) s)
      else if kind = 0b1101 then
        (if length msg < 2 then s
         else call (Rt_channel_aftertouch channel (msg ! 1))
                (\<lambda>p. rt_channel_aftertouch tr p channel (msg ! 1)) s)
      else if kind = 0b1011 then
        (if length msg < 3 then s
         else call (Rt_controller_change channel (msg ! 1) (msg ! 2))
                (\<lambda>p. rt_controller_change tr p channel (msg ! 1) (msg ! 2)) s)
      else if kind = 0b1100 then
        (if length msg < 2 then s
         else
           let pgm = (ucast (msg ! 1 AND 0x7f) :: u32);
               s1 = call (Rt_program_change channel pgm) (\<lambda>p. rt_program_change tr p channel pgm) s
           in s1\<lparr>channel_map :=
                   (channel_map s1)[unat channel := (channel_map s1 ! unat channel)\<lparr>gm := pgm\<rparr>]\<rparr>)
      else if kind = 0b1110 then
        (if length msg < 3 then s
         else call (Rt_pitchbend_ml channel (msg ! 2) (msg ! 1))
                (\<lambda>p. rt_pitchbend_ml tr p channel (msg ! 2) (msg ! 1)) s)
      else s)"

definition generic_play_midi :: "('p, 'f) traits \<Rightarrow> u8 list \<Rightarrow> ('p, 'f, 'd, 'dc, 'lv) globals \<Rightarrow> ('p, 'f, 'd, 'dc, 'lv) globals" where
  "generic_play_midi tr msg s =
     (case try_to_lock s of
        (False, s0) \<Rightarrow> s0
      | (True, s0) \<Rightarrow>
          unlock
            (if length msg \<le> 0 then s0
             else
               let status = msg ! 0 in
               if status AND 0xf0 = 0xf0 then s0
               else
                 let channel = status AND 0x0f
                 in dispatch tr (drop_bit 4 status) channel msg s0))"

subsection \<open>generic_generate_outputs\<close>

text \<open>
  The body of the loop that runs when the mutex is taken: both samples of the frame are set
  to zero, the left one first.
\<close>

definition silence_frame :: "nat \<Rightarrow> nat \<Rightarrow> (nat \<Rightarrow> 'f::zero) \<Rightarrow> (nat \<Rightarrow> 'f)" where
  "silence_frame leftp rightp m = (m(leftp := 0))(rightp := 0)"

text \<open>
  \<^verbatim>\<open>for (unsigned i = 0; i < nframes; ++i)\<close>, entered at \<open>i\<close>. The index \<^verbatim>\<open>i * stride\<close> is a
  product of two \<^verbatim>\<open>unsigned\<close> values; the pointers are addresses counted in \<^verbatim>\<open>float\<close>s.
\<close>

function silence_loop :: "u32 \<Rightarrow> u32 \<Rightarrow> u32 \<Rightarrow> nat \<Rightarrow> nat \<Rightarrow> (nat \<Rightarrow> 'f::zero) \<Rightarrow> (nat \<Rightarrow> 'f)" where
  "silence_loop i nframes stride left right m =
     (if i < nframes then
        silence_loop (i + 1) nframes stride left right
          (silence_frame (left + unat (i * stride)) (right + unat (i * stride)) m)
      else m)"
  by pat_completeness auto
termination
  apply (relation "measure (\<lambda>(i, nframes, stride, left, right, m). unat nframes - unat i)")
   apply simp
  apply simp
  apply unat_arith
  done

text \<open>
  The body of the post-processing loop. Both samples are read and filtered, both level
  monitors are run, and then both samples are written back, the left one first. The result
  carries the two values the loop keeps in its local array \<^verbatim>\<open>lvcurrent\<close>.
\<close>

definition filter_frame :: "('f, 'd, 'dc, 'lv) dsp \<Rightarrow> nat \<Rightarrow> nat \<Rightarrow> ('p, 'f, 'd, 'dc, 'lv) globals \<Rightarrow> ('d \<times> 'd) \<times> ('p, 'f, 'd, 'dc, 'lv) globals" where
  "filter_frame d leftp rightp s =
     (let outputgain = double_1 d;
          (left_sample, dclf) =
             dc_process d (fst (dcfilter s)) (double_mult d outputgain (double_of_float d (mem s leftp)));
          s1 = emit (Dc_process 0) (s\<lparr>dcfilter := (dclf, snd (dcfilter s))\<rparr>);
          (right_sample, dcrf) =
             dc_process d (snd (dcfilter s1)) (double_mult d outputgain (double_of_float d (mem s1 rightp)));
          s2 = emit (Dc_process 1) (s1\<lparr>dcfilter := (fst (dcfilter s1), dcrf)\<rparr>);
          (lv0, lvm0) = lv_process d (fst (lvmonitor s2)) left_sample;
          s3 = emit (Lv_process 0) (s2\<lparr>lvmonitor := (lvm0, snd (lvmonitor s2))\<rparr>);
          (lv1, lvm1) = lv_process d (snd (lvmonitor s3)) right_sample;
          s4 = emit (Lv_process 1) (s3\<lparr>lvmonitor := (fst (lvmonitor s3), lvm1)\<rparr>);
          s5 = s4\<lparr>mem := (mem s4)(leftp := float_of_double d left_sample)\<rparr>;
          s6 = s5\<lparr>mem := (mem s5)(rightp := float_of_double d right_sample)\<rparr>
      in ((lv0, lv1), s6))"

function filter_loop :: "('f, 'd, 'dc, 'lv) dsp \<Rightarrow> u32 \<Rightarrow> u32 \<Rightarrow> u32 \<Rightarrow> nat \<Rightarrow> nat \<Rightarrow> ('d \<times> 'd) \<times> ('p, 'f, 'd, 'dc, 'lv) globals \<Rightarrow> ('d \<times> 'd) \<times> ('p, 'f, 'd, 'dc, 'lv) globals" where
  "filter_loop d i nframes stride left right ls =
     (if i < nframes then
        filter_loop d (i + 1) nframes stride left right
          (filter_frame d (left + unat (i * stride)) (right + unat (i * stride)) (snd ls))
      else ls)"
  by pat_completeness auto
termination
  apply (relation "measure (\<lambda>(d, i, nframes, stride, left, right, ls). unat nframes - unat i)")
   apply simp
  apply simp
  apply unat_arith
  done

text \<open>
  \<^verbatim>\<open>duration_cast<microseconds>(d).count()\<close> for a duration in the clock's ticks, which are
  nanoseconds: an integer division that truncates.
\<close>

definition microseconds :: "int \<Rightarrow> int" where
  "microseconds d_gen = (if 0 \<le> d_gen then d_gen div 1000 else - ((- d_gen) div 1000))"

text \<open>
  The block generator. \<open>left\<close> and \<open>right\<close> are the two buffer pointers; \<open>t_before_gen\<close>
  and \<open>t_after_gen\<close> are what the two readings of the steady clock return. The field
  \<^verbatim>\<open>sampleOffset\<close> receives \<^verbatim>\<open>stride * sizeof(float)\<close>, cut to the 32 bits of the field, and
  the backend is asked for \<^verbatim>\<open>2 * nframes\<close> samples, an \<^verbatim>\<open>unsigned\<close> product. The local array
  \<^verbatim>\<open>lvcurrent\<close> is not initialised in the program; the loop runs at least once and assigns
  it, so the value it starts with here is never stored.
\<close>

definition generic_generate_outputs :: "('p, 'f::zero) traits \<Rightarrow> ('f, 'd, 'dc, 'lv) dsp \<Rightarrow> nat \<Rightarrow> nat \<Rightarrow> u32 \<Rightarrow> u32 \<Rightarrow> int \<Rightarrow> int \<Rightarrow> ('p, 'f, 'd, 'dc, 'lv) globals \<Rightarrow> ('p, 'f, 'd, 'dc, 'lv) globals" where
  "generic_generate_outputs tr d left right nframes stride t_before_gen t_after_gen s =
     (if nframes \<le> 0 then s
      else
        case try_to_lock s of
          (False, s0) \<Rightarrow> s0\<lparr>mem := silence_loop 0 nframes stride left right (mem s0)\<rparr>
        | (True, s0) \<Rightarrow>
            let format = \<lparr>type = ADLMIDI_SampleType_F32, containerSize = 4, sampleOffset = stride * 4\<rparr>;
                s1 = emit Clock_now s0;
                (p', m') = generate_format tr (player s1) (2 * nframes) left right format (mem s1);
                s2 = emit (Backend (Generate_format (2 * nframes) left right format))
                       (s1\<lparr>player := p', mem := m'\<rparr>);
                s3 = emit Clock_now s2;
                s4 = unlock s3;
                (lv, s5) = filter_loop d 0 nframes stride left right (lvcurrent s4, s4);
                s6 = emit Store_lvcurrent (s5\<lparr>lvcurrent := lv\<rparr>);
                d_gen = t_after_gen - t_before_gen;
                d_sec = double_mult d (double_1e_6 d) (double_of_count d (microseconds d_gen))
            in emit Store_cpuratio
                 (s6\<lparr>cpuratio :=
                       double_div d d_sec
                         (double_div d (double_of_unsigned d nframes)
                            (double_of_unsigned d (player_sample_rate s6)))\<rparr>))"

subsection \<open>The dynamic reconfiguration functions\<close>

text \<open>
  Each takes the mutex with \<^verbatim>\<open>std::lock_guard\<close>, which is released when the function
  returns, on every path. The results are the return values of the C++ functions, paired
  with the new globals: the first two functions return \<^verbatim>\<open>void\<close>, modelled by \<open>unit\<close>, and
  the third returns \<^verbatim>\<open>bool\<close>.
\<close>

definition generic_player_dynamic_set_chip_count :: "('p, 'f) traits \<Rightarrow> u32 \<Rightarrow> ('p, 'f, 'd, 'dc, 'lv) globals \<Rightarrow> unit \<times> ('p, 'f, 'd, 'dc, 'lv) globals" where
  "generic_player_dynamic_set_chip_count tr nchip s =
     (let s0 = lock_guard s;
          s1 = call Panic (panic tr) s0;
          (rc, s2) = call_status (Set_num_chips nchip) (\<lambda>p. set_num_chips tr p nchip) s1
      in ((), unlock s2))"

definition generic_player_dynamic_set_emulator :: "('p, 'f) traits \<Rightarrow> u32 \<Rightarrow> ('p, 'f, 'd, 'dc, 'lv) globals \<Rightarrow> unit \<times> ('p, 'f, 'd, 'dc, 'lv) globals" where
  "generic_player_dynamic_set_emulator tr emulator s =
     (let s0 = lock_guard s;
          s1 = call Panic (panic tr) s0;
          (rc, s2) = call_status (Switch_emulator emulator) (\<lambda>p. switch_emulator tr p emulator) s1
      in if rc < 0 then ((), unlock s2)
         else ((), unlock (s2\<lparr>player_emulator_id := emulator\<rparr>)))"

definition generic_player_dynamic_load_bank :: "('p, 'f) traits \<Rightarrow> string \<Rightarrow> ('p, 'f, 'd, 'dc, 'lv) globals \<Rightarrow> bool \<times> ('p, 'f, 'd, 'dc, 'lv) globals" where
  "generic_player_dynamic_load_bank tr bankfile s =
     (let s0 = lock_guard s;
          s1 = call Panic (panic tr) s0;
          (rc, s2) = call_status (Open_bank_file bankfile) (\<lambda>p. open_bank_file tr p bankfile) s1
      in if rc < 0 then (False, unlock s2)
         else (True, unlock (s2\<lparr>player_bank_file := Some bankfile\<rparr>)))"

subsection \<open>Notions used in the statements\<close>

text \<open>
  The messages that the dispatcher is to drop: the empty message, a system message (high
  nibble \<open>0xF\<close>), and a channel message shorter than its kind needs.
\<close>

definition malformed :: "u8 list \<Rightarrow> bool" where
  "malformed msg \<longleftrightarrow>
     length msg = 0
     \<or> msg ! 0 AND 0xf0 = 0xf0
     \<or> drop_bit 4 (msg ! 0) \<in> {0x9, 0x8, 0xA, 0xB, 0xE} \<and> length msg < 3
     \<or> drop_bit 4 (msg ! 0) \<in> {0xC, 0xD} \<and> length msg < 2"

text \<open>
  The addresses of the samples of the frames \<open>i, \<dots>, nframes - 1\<close>, as the two loops
  compute them.
\<close>

definition frame_slot :: "nat \<Rightarrow> nat \<Rightarrow> u32 \<Rightarrow> u32 \<Rightarrow> u32 \<Rightarrow> nat \<Rightarrow> bool" where
  "frame_slot left right stride i nframes a \<longleftrightarrow>
     (\<exists>j. i \<le> j \<and> j < nframes \<and> (a = left + unat (j * stride) \<or> a = right + unat (j * stride)))"

text \<open>The format descriptor the block generator passes to the backend.\<close>

definition f32_format :: "u32 \<Rightarrow> audio_format" where
  "f32_format stride = \<lparr>type = ADLMIDI_SampleType_F32, containerSize = 4, sampleOffset = stride * 4\<rparr>"

text \<open>The store the backend's render call leaves behind when the block generator calls it.\<close>

definition rendered :: "('p, 'f) traits \<Rightarrow> nat \<Rightarrow> nat \<Rightarrow> u32 \<Rightarrow> u32 \<Rightarrow> ('p, 'f, 'd, 'dc, 'lv) globals \<Rightarrow> nat \<Rightarrow> 'f" where
  "rendered tr left right nframes stride s =
     snd (generate_format tr (player s) (2 * nframes) left right (f32_format stride) (mem s))"

text \<open>The trace of the post-processing of one frame, and of a whole block.\<close>

definition frame_events :: "event list" where
  "frame_events = [Dc_process 0, Dc_process 1, Lv_process 0, Lv_process 1]"

definition post_processing :: "u32 \<Rightarrow> event list" where
  "post_processing nframes =
     concat (replicate (unat nframes) frame_events) @ [Store_lvcurrent, Store_cpuratio]"


subsection \<open>A concrete backend\<close>

text \<open>
  A small backend to instantiate the statements with. Its state is the chip count and the
  emulator id. It has two emulators, refuses a chip count of zero and a bank file with an
  empty name, and renders the value 1 into the first frame. The filters pass their input
  on, and the real numbers with their exact arithmetic stand for \<^verbatim>\<open>float\<close> and \<^verbatim>\<open>double\<close>.
\<close>

definition test_traits :: "(u32 \<times> u32, real) traits" where
  "test_traits =
     \<lparr>rt_note_on = (\<lambda>p channel key velocity. p),
      rt_note_off = (\<lambda>p channel key. p),
      rt_note_aftertouch = (\<lambda>p channel key value. p),
      rt_channel_aftertouch = (\<lambda>p channel value. p),
      rt_controller_change = (\<lambda>p channel controller value. p),
      rt_program_change = (\<lambda>p channel pgm. p),
      rt_pitchbend_ml = (\<lambda>p channel msb lsb. p),
      panic = (\<lambda>p. p),
      set_num_chips = (\<lambda>p nchip. if nchip < 1 then (- 1, p) else (0, (nchip, snd p))),
      switch_emulator = (\<lambda>p emulator. if emulator < 2 then (0, (fst p, emulator)) else (- 1, p)),
      open_bank_file = (\<lambda>p bankfile. if bankfile = [] then (- 1, p) else (0, p)),
      generate_format = (\<lambda>p sample_count left right format m. (p, m(left := 1, right := 1)))\<rparr>"

definition test_dsp :: "(real, real, unit, unit) dsp" where
  "test_dsp =
     \<lparr>dc_process = (\<lambda>st x. (x, st)),
      lv_process = (\<lambda>st x. (abs x, st)),
      double_of_float = (\<lambda>x. x),
      float_of_double = (\<lambda>x. x),
      double_of_count = of_int,
      double_of_unsigned = (\<lambda>n. of_nat (unat n)),
      double_mult = (*),
      double_div = (/),
      double_1 = 1,
      double_1e_6 = 1 / 1000000\<rparr>"

definition test_globals :: "bool \<Rightarrow> (u32 \<times> u32, real, real, unit, unit) globals" where
  "test_globals held =
     \<lparr>player = (2, 0),
      player_bank_file = None,
      dcfilter = ((), ()),
      lvmonitor = ((), ()),
      lvcurrent = (0, 0),
      cpuratio = 0,
      channel_map = replicate 16 \<lparr>gm = 0\<rparr>,
      player_sample_rate = 44100,
      player_emulator_id = 0,
      player_mutex = held,
      mem = (\<lambda>a. 5),
      trace = []\<rparr>"

section \<open>Properties\<close>

subsection \<open>Auxiliary facts\<close>

lemmas effect_defs = emit_def try_to_lock_def lock_guard_def unlock_def call_def call_status_def

declare silence_loop.simps [simp del] filter_loop.simps [simp del]

lemma backend_calls_append: "backend_calls (es @ fs) = backend_calls es @ backend_calls fs"
  by (induction es rule: backend_calls.induct) simp_all

text \<open>The test for a system message looks at the same four bits as the \<^verbatim>\<open>switch\<close>.\<close>

lemma status_high_nibble: "status AND 0xf0 = push_bit 4 (drop_bit 4 status)" for status :: u8
proof (rule bit_word_eqI)
  fix n :: nat
  assume "n < LENGTH(8)"
  then consider "n = 0" | "n = 1" | "n = 2" | "n = 3" | "n = 4" | "n = 5" | "n = 6" | "n = 7"
    by fastforce
  then show "bit (status AND 0xf0) n \<longleftrightarrow> bit (push_bit 4 (drop_bit 4 status)) n"
    by cases (simp_all add: bit_simps)
qed

lemma channel_in_range: "unat (status AND 0x0f) < 16" for status :: u8
proof -
  have "status AND 0x0f \<le> 0x0f"
    by (rule word_and_le1)
  then show ?thesis
    by (simp add: word_le_nat_alt)
qed

text \<open>The loop counter does not wrap around before it reaches \<open>nframes\<close>.\<close>

lemma loop_index_step: "i < nframes \<Longrightarrow> i \<le> j \<longleftrightarrow> j = i \<or> i + 1 \<le> j" for i j nframes :: u32
  by unat_arith

lemma loop_count_step: "i < nframes \<Longrightarrow> unat nframes - unat i = Suc (unat nframes - unat (i + 1))" for i nframes :: u32
  by unat_arith

lemma frame_slot_step:
  "i < nframes \<Longrightarrow> frame_slot left right stride i nframes a \<longleftrightarrow>
     a = left + unat (i * stride) \<or> a = right + unat (i * stride) \<or> frame_slot left right stride (i + 1) nframes a"
  unfolding frame_slot_def using loop_index_step [of i nframes] by (metis inc_le word_le_less_eq order.refl)

lemma frame_slot_done: "\<not> i < nframes \<Longrightarrow> \<not> frame_slot left right stride i nframes a"
  unfolding frame_slot_def by auto

lemma frame_slot_0:
  "frame_slot left right stride 0 nframes a \<longleftrightarrow>
     (\<exists>j<nframes. a = left + unat (j * stride) \<or> a = right + unat (j * stride))"
  by (simp add: frame_slot_def)

text \<open>
  The two products of the block generator are taken in 32 bits. They are the products of
  the numbers as long as those fit.
\<close>

lemma sample_count_exact: "unat nframes < 2 ^ 31 \<Longrightarrow> unat (2 * nframes) = 2 * unat nframes" for nframes :: u32
  by (simp add: unat_word_ariths)

lemma frame_index_exact: "unat i * unat stride < 2 ^ 32 \<Longrightarrow> unat (i * stride) = unat i * unat stride" for i stride :: u32
  by (simp add: unat_word_ariths)

text \<open>Beyond that they wrap around: two examples.\<close>

lemma sample_count_wraps: "unat (2 * (0x80000000 :: u32)) = 0"
  by simp

lemma frame_index_wraps: "unat ((2 :: u32) * 0x80000001) = 2"
  by simp

text \<open>The silence loop: the store afterwards, address by address.\<close>

lemma silence_loop_mem:
  "silence_loop i nframes stride left right m a =
     (if frame_slot left right stride i nframes a then 0 else m a)"
proof (induction i nframes stride left right m rule: silence_loop.induct)
  case (1 i nframes stride left right m)
  show ?case
  proof (cases "i < nframes")
    case True
    let ?m = "silence_frame (left + unat (i * stride)) (right + unat (i * stride)) m"
    have "silence_loop i nframes stride left right m a
          = silence_loop (i + 1) nframes stride left right ?m a"
      using True by (subst silence_loop.simps) simp
    also have "\<dots> = (if frame_slot left right stride (i + 1) nframes a then 0 else ?m a)"
      by (rule "1.IH" [OF True])
    also have "\<dots> = (if frame_slot left right stride i nframes a then 0 else m a)"
      by (simp add: frame_slot_step [OF True] silence_frame_def)
    finally show ?thesis .
  next
    case False
    then show ?thesis
      by (subst silence_loop.simps) (simp add: frame_slot_done)
  qed
qed

text \<open>The post-processing loop: its trace, the mutex, and the addresses it leaves alone.\<close>

lemma filter_frame_trace: "trace (snd (filter_frame d leftp rightp s)) = trace s @ frame_events"
  by (simp add: filter_frame_def frame_events_def effect_defs Let_def split: prod.splits)

lemma filter_frame_mem:
  "a \<noteq> leftp \<Longrightarrow> a \<noteq> rightp \<Longrightarrow> mem (snd (filter_frame d leftp rightp s)) a = mem s a"
  by (simp add: filter_frame_def effect_defs Let_def split: prod.splits)

lemma filter_frame_mutex: "player_mutex (snd (filter_frame d leftp rightp s)) = player_mutex s"
  by (simp add: filter_frame_def effect_defs Let_def split: prod.splits)

lemma filter_loop_trace:
  "trace (snd (filter_loop d i nframes stride left right ls))
     = trace (snd ls) @ concat (replicate (unat nframes - unat i) frame_events)"
proof (induction d i nframes stride left right ls rule: filter_loop.induct)
  case (1 d i nframes stride left right ls)
  show ?case
  proof (cases "i < nframes")
    case True
    then show ?thesis
      using "1.IH" [OF True]
      by (subst filter_loop.simps) (simp add: filter_frame_trace loop_count_step [OF True])
  next
    case False
    then have "unat nframes - unat i = 0"
      by unat_arith
    with False show ?thesis
      by (subst filter_loop.simps) simp
  qed
qed

lemma filter_loop_mutex:
  "player_mutex (snd (filter_loop d i nframes stride left right ls)) = player_mutex (snd ls)"
proof (induction d i nframes stride left right ls rule: filter_loop.induct)
  case (1 d i nframes stride left right ls)
  show ?case
  proof (cases "i < nframes")
    case True
    then show ?thesis
      using "1.IH" [OF True]
      by (subst filter_loop.simps) (simp add: filter_frame_mutex)
  next
    case False
    then show ?thesis
      by (subst filter_loop.simps) simp
  qed
qed

lemma filter_loop_mem:
  "\<not> frame_slot left right stride i nframes a \<Longrightarrow>
     mem (snd (filter_loop d i nframes stride left right ls)) a = mem (snd ls) a"
proof (induction d i nframes stride left right ls rule: filter_loop.induct)
  case (1 d i nframes stride left right ls)
  show ?case
  proof (cases "i < nframes")
    case True
    then show ?thesis
      using "1.IH" [OF True] "1.prems"
      by (subst filter_loop.simps) (simp add: frame_slot_step [OF True] filter_frame_mem)
  next
    case False
    then show ?thesis
      by (subst filter_loop.simps) simp
  qed
qed

lemma post_processing_calls: "backend_calls (post_processing nframes) = []"
proof -
  have "backend_calls (concat (replicate n frame_events)) = []" for n
    by (induction n) (simp_all add: backend_calls_append frame_events_def)
  then show ?thesis
    by (simp add: post_processing_def backend_calls_append)
qed

text \<open>The block generator when the mutex is taken by another thread.\<close>

lemma generate_outputs_contended:
  "0 < nframes \<Longrightarrow> player_mutex s \<Longrightarrow>
   generic_generate_outputs tr d left right nframes stride t0 t1 s
     = s\<lparr>mem := silence_loop 0 nframes stride left right (mem s), trace := trace s @ [Mutex_try_lock False]\<rparr>"
  by (simp add: generic_generate_outputs_def effect_defs)

text \<open>The block generator when the mutex is free.\<close>

lemma generate_outputs_trace:
  assumes "0 < nframes" and "\<not> player_mutex s"
  shows "trace (generic_generate_outputs tr d left right nframes stride t0 t1 s)
     = trace s @ [Mutex_try_lock True, Clock_now,
         Backend (Generate_format (2 * nframes) left right (f32_format stride)), Clock_now, Mutex_unlock]
       @ post_processing nframes"
  using assms
  by (simp add: generic_generate_outputs_def try_to_lock_def Let_def case_prod_beta
      f32_format_def post_processing_def filter_loop_trace emit_def unlock_def)

lemma generate_outputs_mutex:
  assumes "0 < nframes" and "\<not> player_mutex s"
  shows "\<not> player_mutex (generic_generate_outputs tr d left right nframes stride t0 t1 s)"
  using assms
  by (simp add: generic_generate_outputs_def try_to_lock_def Let_def case_prod_beta
      filter_loop_mutex emit_def unlock_def)

lemma generate_outputs_mem:
  assumes "0 < nframes" and "\<not> player_mutex s" and "\<not> frame_slot left right stride 0 nframes a"
  shows "mem (generic_generate_outputs tr d left right nframes stride t0 t1 s) a
     = rendered tr left right nframes stride s a"
proof -
  from assms(1) have "nframes \<noteq> 0"
    by auto
  with assms show ?thesis
    by (simp add: generic_generate_outputs_def try_to_lock_def Let_def case_prod_beta
        f32_format_def rendered_def filter_loop_mem emit_def unlock_def)
qed

text \<open>The post-processing does not touch the player; the render call gives it its new state.\<close>

lemma filter_frame_player: "player (snd (filter_frame d leftp rightp s)) = player s"
  by (simp add: filter_frame_def effect_defs Let_def split: prod.splits)

lemma filter_loop_player:
  "player (snd (filter_loop d i nframes stride left right ls)) = player (snd ls)"
proof (induction d i nframes stride left right ls rule: filter_loop.induct)
  case (1 d i nframes stride left right ls)
  show ?case
  proof (cases "i < nframes")
    case True
    then show ?thesis
      using "1.IH" [OF True]
      by (subst filter_loop.simps) (simp add: filter_frame_player)
  next
    case False
    then show ?thesis
      by (subst filter_loop.simps) simp
  qed
qed

lemma generate_outputs_player:
  assumes "0 < nframes" and "\<not> player_mutex s"
  shows "player (generic_generate_outputs tr d left right nframes stride t0 t1 s)
     = fst (generate_format tr (player s) (2 * nframes) left right (f32_format stride) (mem s))"
proof -
  from assms(1) have "nframes \<noteq> 0"
    by auto
  with assms show ?thesis
    by (simp add: generic_generate_outputs_def try_to_lock_def Let_def case_prod_beta
        f32_format_def filter_loop_player emit_def unlock_def)
qed




subsection \<open>The dynamic reconfiguration functions\<close>


text \<open>
  C4. \<open>generic_player_dynamic_set_emulator\<close> stores the new emulator id only when the
  backend's \<open>switch_emulator\<close> reports success (a status that is not negative), and
  \<open>generic_player_dynamic_load_bank\<close> stores the new bank path only when the backend's
  \<open>open_bank_file\<close> reports success. When the backend fails, the stored emulator id and
  the stored bank path are what they were; neither function touches the other's value.
\<close>

theorem dynamic_commit_on_success:
  "player_emulator_id (snd (generic_player_dynamic_set_emulator tr emulator s))
      = (if fst (switch_emulator tr (panic tr (player s)) emulator) < 0 then player_emulator_id s
         else emulator)
   \<and> player_bank_file (snd (generic_player_dynamic_set_emulator tr emulator s)) = player_bank_file s
   \<and> player_bank_file (snd (generic_player_dynamic_load_bank tr bankfile s))
      = (if fst (open_bank_file tr (panic tr (player s)) bankfile) < 0 then player_bank_file s
         else Some bankfile)
   \<and> player_emulator_id (snd (generic_player_dynamic_load_bank tr bankfile s)) = player_emulator_id s"
  by (auto simp: generic_player_dynamic_set_emulator_def
      generic_player_dynamic_load_bank_def effect_defs Let_def split: prod.splits)

subsection \<open>The MIDI dispatcher\<close>

text \<open>
  C2. A note-on message with velocity zero has exactly the effect of a note-off message
  for the same channel and key: for two messages of at least three bytes, one a note-on
  with velocity zero and one a note-off, with the same channel and the same key, the
  globals after \<open>generic_play_midi\<close> are equal. When the dispatcher gets the mutex the
  backend receives one note-off for that channel and key and nothing else, so no note-on;
  when it does not get the mutex both messages are dropped alike.
\<close>

theorem note_on_zero_velocity_is_note_off:
  assumes "3 \<le> length on" and "drop_bit 4 (on ! 0) = 0b1001" and "on ! 2 = 0"
    and "3 \<le> length off" and "drop_bit 4 (off ! 0) = 0b1000"
    and "off ! 0 AND 0x0f = on ! 0 AND 0x0f" and "off ! 1 = on ! 1"
  shows "generic_play_midi tr on s = generic_play_midi tr off s
       \<and> backend_calls (trace (generic_play_midi tr on s))
          = backend_calls (trace s) @ (if player_mutex s then [] else [Rt_note_off (on ! 0 AND 0x0f) (on ! 1)])
       \<and> player (generic_play_midi tr on s)
          = (if player_mutex s then player s else rt_note_off tr (player s) (on ! 0 AND 0x0f) (on ! 1))"
proof -
  have "on ! 0 AND 0xf0 \<noteq> 0xf0" "off ! 0 AND 0xf0 \<noteq> 0xf0"
    using assms(2,5) by (simp_all add: status_high_nibble)
  with assms show ?thesis
    by (auto simp: generic_play_midi_def dispatch_def case_note_off_def effect_defs
      backend_calls_append Let_def)
qed

text \<open>The theorem at the messages \<open>93 40 00\<close> and \<open>83 40 7f\<close>, with the mutex free.\<close>

theorem note_on_zero_velocity_is_note_off_witness:
  "generic_play_midi test_traits [0x93, 0x40, 0x00] (test_globals False)
     = generic_play_midi test_traits [0x83, 0x40, 0x7f] (test_globals False)
   \<and> backend_calls (trace (generic_play_midi test_traits [0x93, 0x40, 0x00] (test_globals False)))
     = [Rt_note_off 3 0x40]"
proof -
  have free: "player_mutex (test_globals False) = False" "trace (test_globals False) = []"
    by (simp_all add: test_globals_def)
  have "3 \<le> length [0x93, 0x40, 0x00 :: u8]" "drop_bit 4 ([0x93, 0x40, 0x00 :: u8] ! 0) = 0b1001"
    "[0x93, 0x40, 0x00 :: u8] ! 2 = 0" "3 \<le> length [0x83, 0x40, 0x7f :: u8]"
    "drop_bit 4 ([0x83, 0x40, 0x7f :: u8] ! 0) = 0b1000"
    "[0x83, 0x40, 0x7f :: u8] ! 0 AND 0x0f = [0x93, 0x40, 0x00] ! 0 AND 0x0f"
    "[0x83, 0x40, 0x7f :: u8] ! 1 = [0x93, 0x40, 0x00] ! 1"
    by simp_all
  note r = note_on_zero_velocity_is_note_off [OF this, of test_traits "test_globals False"]
  from r [THEN conjunct2, THEN conjunct1]
  have "backend_calls (trace (generic_play_midi test_traits [0x93, 0x40, 0x00] (test_globals False)))
          = [Rt_note_off 3 0x40]"
    by (simp add: free)
  with r [THEN conjunct1] show ?thesis
    by (rule conjI)
qed

text \<open>
  C3. For a program-change message of at least two bytes with program byte \<open>p\<close> on channel
  \<open>ch\<close>, dispatched with the mutex free, the entry of \<open>channel_map\<close> for \<open>ch\<close> holds
  \<open>p AND 0x7F\<close> afterwards, and the backend has received one program change for \<open>ch\<close>
  carrying \<open>p AND 0x7F\<close>. \<open>channel_map\<close> is an array of 16 entries.
\<close>

theorem program_change_recorded:
  assumes "2 \<le> length msg" and "drop_bit 4 (msg ! 0) = 0b1100" and "\<not> player_mutex s"
    and "length (channel_map s) = 16"
  shows "gm (channel_map (generic_play_midi tr msg s) ! unat (msg ! 0 AND 0x0f)) = ucast (msg ! 1 AND 0x7f)
       \<and> backend_calls (trace (generic_play_midi tr msg s))
          = backend_calls (trace s) @ [Rt_program_change (msg ! 0 AND 0x0f) (ucast (msg ! 1 AND 0x7f))]
       \<and> player (generic_play_midi tr msg s)
          = rt_program_change tr (player s) (msg ! 0 AND 0x0f) (ucast (msg ! 1 AND 0x7f))"
proof -
  have "msg ! 0 AND 0xf0 \<noteq> 0xf0"
    using assms(2) by (simp add: status_high_nibble)
  with assms channel_in_range [of "msg ! 0"] show ?thesis
    by (auto simp: generic_play_midi_def dispatch_def case_note_off_def effect_defs
      backend_calls_append Let_def)
qed

text \<open>The theorem at the message \<open>C5 FF\<close>: the high bit of the program byte is masked off.\<close>

theorem program_change_recorded_witness:
  "gm (channel_map (generic_play_midi test_traits [0xC5, 0xFF] (test_globals False)) ! 5) = 127
   \<and> backend_calls (trace (generic_play_midi test_traits [0xC5, 0xFF] (test_globals False)))
      = [Rt_program_change 5 127]"
  using program_change_recorded [of "[0xC5, 0xFF]" "test_globals False" test_traits]
  by (simp add: test_globals_def)

text \<open>
  C6. A message that is empty, or whose status byte has the high nibble \<open>0xF\<close>, or that is
  shorter than its kind needs (three bytes for note-on, note-off, polyphonic aftertouch,
  controller change and pitch bend, two bytes for program change and channel aftertouch),
  is dropped: the backend is not called and its state is unchanged, and \<open>channel_map\<close> is
  unchanged. The only effect is the try-lock and, when it succeeds, the unlock. The
  function returns normally in every case; it has no way to signal an error.
\<close>

theorem malformed_dropped:
  assumes "malformed msg"
  shows "player (generic_play_midi tr msg s) = player s
       \<and> channel_map (generic_play_midi tr msg s) = channel_map s
       \<and> backend_calls (trace (generic_play_midi tr msg s)) = backend_calls (trace s)
       \<and> trace (generic_play_midi tr msg s)
          = trace s @ (if player_mutex s then [Mutex_try_lock False] else [Mutex_try_lock True, Mutex_unlock])"
  using assms
  by (auto simp: malformed_def generic_play_midi_def dispatch_def case_note_off_def effect_defs
      backend_calls_append Let_def)

text \<open>The theorem at the note-on message \<open>90 40\<close>, which lacks its velocity byte.\<close>

theorem malformed_dropped_witness:
  "player (generic_play_midi test_traits [0x90, 0x40] (test_globals False)) = (2, 0)
   \<and> channel_map (generic_play_midi test_traits [0x90, 0x40] (test_globals False)) = replicate 16 \<lparr>gm = 0\<rparr>
   \<and> backend_calls (trace (generic_play_midi test_traits [0x90, 0x40] (test_globals False))) = []
   \<and> trace (generic_play_midi test_traits [0x90, 0x40] (test_globals False)) = [Mutex_try_lock True, Mutex_unlock]"
  using malformed_dropped [of "[0x90, 0x40]" test_traits "test_globals False"]
  by (simp add: malformed_def test_globals_def)

subsection \<open>The block generator\<close>

text \<open>
  C1. When the try-lock fails, \<open>generic_generate_outputs\<close> with a frame count above zero
  and any stride writes exactly zero to the left and to the right sample of every frame \<open>i\<close>
  below the frame count, and returns without calling the backend: the only thing it adds to
  the trace is the failed try-lock, and the player is untouched. The sample of frame \<open>i\<close>
  is the one the program addresses, \<^verbatim>\<open>left[i * stride]\<close> and \<^verbatim>\<open>right[i * stride]\<close>.
\<close>

theorem contended_block_is_silent:
  assumes "player_mutex s" and "i < nframes"
  shows "mem (generic_generate_outputs tr d left right nframes stride t_before_gen t_after_gen s)
             (left + unat (i * stride)) = 0
       \<and> mem (generic_generate_outputs tr d left right nframes stride t_before_gen t_after_gen s)
             (right + unat (i * stride)) = 0
       \<and> trace (generic_generate_outputs tr d left right nframes stride t_before_gen t_after_gen s)
           = trace s @ [Mutex_try_lock False]
       \<and> player (generic_generate_outputs tr d left right nframes stride t_before_gen t_after_gen s)
           = player s"
proof -
  from assms(2) have "0 < nframes"
    by unat_arith
  moreover have "frame_slot left right stride 0 nframes (left + unat (i * stride))"
    and "frame_slot left right stride 0 nframes (right + unat (i * stride))"
    using assms(2) by (auto simp: frame_slot_0)
  ultimately show ?thesis
    using assms(1) by (simp add: generate_outputs_contended silence_loop_mem)
qed

text \<open>The theorem for two frames with stride 3, at frame 1: the addresses 3 and 4.\<close>

theorem contended_block_is_silent_witness:
  "mem (generic_generate_outputs test_traits test_dsp 0 1 2 3 0 0 (test_globals True)) 3 = 0
   \<and> mem (generic_generate_outputs test_traits test_dsp 0 1 2 3 0 0 (test_globals True)) 4 = 0
   \<and> trace (generic_generate_outputs test_traits test_dsp 0 1 2 3 0 0 (test_globals True)) = [Mutex_try_lock False]
   \<and> player (generic_generate_outputs test_traits test_dsp 0 1 2 3 0 0 (test_globals True)) = (2, 0)"
  using contended_block_is_silent
    [where s = "test_globals True" and i = 1 and nframes = 2 and stride = 3 and left = 0 and right = 1
       and tr = test_traits and d = test_dsp and t_before_gen = 0 and t_after_gen = 0]
  by (simp add: test_globals_def)

text \<open>
  C7. When the try-lock succeeds, the backend's render function is called exactly once,
  with the sample count \<^verbatim>\<open>2 * nframes\<close>, between the two readings of the clock; the mutex is
  released right after the second reading, and everything that follows the release is
  post-processing: the DC filters, the level monitors and the two stores of telemetry.
  The call is not only recorded but made: the player afterwards is the one the render
  function returns for the player, the two pointers, the format and the store the call
  started with, and outside the samples of the frames the store is the one the render
  function returns.
  The sample count is the \<^verbatim>\<open>unsigned\<close> product of the program, which is twice the frame
  count for every frame count below \<open>2\<^sup>3\<^sup>1\<close> (lemma \<open>sample_count_exact\<close>).
\<close>

theorem render_then_release:
  assumes "0 < nframes" and "\<not> player_mutex s"
  shows "trace (generic_generate_outputs tr d left right nframes stride t_before_gen t_after_gen s)
           = trace s
             @ [Mutex_try_lock True, Clock_now,
                Backend (Generate_format (2 * nframes) left right (f32_format stride)),
                Clock_now, Mutex_unlock]
             @ post_processing nframes
       \<and> backend_calls (trace (generic_generate_outputs tr d left right nframes stride t_before_gen t_after_gen s))
           = backend_calls (trace s) @ [Generate_format (2 * nframes) left right (f32_format stride)]
       \<and> set (post_processing nframes)
           \<subseteq> {Dc_process 0, Dc_process 1, Lv_process 0, Lv_process 1, Store_lvcurrent, Store_cpuratio}
       \<and> \<not> player_mutex (generic_generate_outputs tr d left right nframes stride t_before_gen t_after_gen s)
       \<and> player (generic_generate_outputs tr d left right nframes stride t_before_gen t_after_gen s)
           = fst (generate_format tr (player s) (2 * nframes) left right (f32_format stride) (mem s))
       \<and> (\<forall>a. \<not> frame_slot left right stride 0 nframes a \<longrightarrow>
              mem (generic_generate_outputs tr d left right nframes stride t_before_gen t_after_gen s) a
                = snd (generate_format tr (player s) (2 * nframes) left right (f32_format stride) (mem s)) a)"
proof -
  have "set (post_processing nframes)
           \<subseteq> {Dc_process 0, Dc_process 1, Lv_process 0, Lv_process 1, Store_lvcurrent, Store_cpuratio}"
    by (auto simp: post_processing_def frame_events_def)
  moreover have "\<forall>a. \<not> frame_slot left right stride 0 nframes a \<longrightarrow>
      mem (generic_generate_outputs tr d left right nframes stride t_before_gen t_after_gen s) a
        = snd (generate_format tr (player s) (2 * nframes) left right (f32_format stride) (mem s)) a"
    using assms by (simp add: generate_outputs_mem rendered_def)
  ultimately show ?thesis
    using assms
    by (simp add: generate_outputs_trace generate_outputs_mutex generate_outputs_player
        backend_calls_append post_processing_calls)
qed

text \<open>The theorem for two frames: the whole trace of the call, and the player.\<close>

theorem render_then_release_witness:
  "trace (generic_generate_outputs test_traits test_dsp 0 1 2 2 0 0 (test_globals False))
     = [Mutex_try_lock True, Clock_now, Backend (Generate_format 4 0 1 (f32_format 2)), Clock_now, Mutex_unlock,
        Dc_process 0, Dc_process 1, Lv_process 0, Lv_process 1,
        Dc_process 0, Dc_process 1, Lv_process 0, Lv_process 1,
        Store_lvcurrent, Store_cpuratio]
   \<and> player (generic_generate_outputs test_traits test_dsp 0 1 2 2 0 0 (test_globals False)) = (2, 0)"
proof -
  have twice: "replicate 2 x = [x, x]" for x :: "event list"
    by (simp add: numeral_2_eq_2)
  have post: "post_processing 2
      = [Dc_process 0, Dc_process 1, Lv_process 0, Lv_process 1,
         Dc_process 0, Dc_process 1, Lv_process 0, Lv_process 1,
         Store_lvcurrent, Store_cpuratio]"
    by (simp add: post_processing_def frame_events_def twice)
  have h: "(0 :: u32) < 2" "\<not> player_mutex (test_globals False)"
    and empty: "trace (test_globals False) = []"
    by (simp_all add: test_globals_def)
  note r = render_then_release
    [where s = "test_globals False" and nframes = 2 and stride = 2 and left = 0 and right = 1
       and tr = test_traits and d = test_dsp and t_before_gen = 0 and t_after_gen = 0, OF h]
  from r [THEN conjunct1]
  have "trace (generic_generate_outputs test_traits test_dsp 0 1 2 2 0 0 (test_globals False))
     = [Mutex_try_lock True, Clock_now, Backend (Generate_format 4 0 1 (f32_format 2)), Clock_now, Mutex_unlock,
        Dc_process 0, Dc_process 1, Lv_process 0, Lv_process 1,
        Dc_process 0, Dc_process 1, Lv_process 0, Lv_process 1,
        Store_lvcurrent, Store_cpuratio]"
    by (simp add: post empty)
  moreover from r [THEN conjunct2, THEN conjunct2, THEN conjunct2, THEN conjunct2, THEN conjunct1]
  have "player (generic_generate_outputs test_traits test_dsp 0 1 2 2 0 0 (test_globals False)) = (2, 0)"
    by (simp add: test_traits_def test_globals_def)
  ultimately show ?thesis
    by (rule conjI)
qed

text \<open>
  C10. For every stride and frame count, the only addresses \<open>generic_generate_outputs\<close>
  itself stores to are those of the frames, \<^verbatim>\<open>left[i * stride]\<close> and \<^verbatim>\<open>right[i * stride]\<close> for
  \<open>i\<close> below the frame count. At every other address the store afterwards is the store
  before when the try-lock fails (or when there is no frame at all), and is what the
  backend's render call left there when the try-lock succeeds: the loop that filters the
  block adds no store outside the frames. So an address outside the frames that the
  render call leaves alone is unchanged by the whole call. The index is the \<^verbatim>\<open>unsigned\<close> product of the
  program, which is the product of the numbers whenever that is below \<open>2\<^sup>3\<^sup>2\<close>
  (lemma \<open>frame_index_exact\<close>).
\<close>

theorem generate_outputs_frame:
  assumes "\<forall>j<nframes. a \<noteq> left + unat (j * stride) \<and> a \<noteq> right + unat (j * stride)"
  shows "mem (generic_generate_outputs tr d left right nframes stride t_before_gen t_after_gen s) a
           = (if nframes = 0 \<or> player_mutex s then mem s a
              else rendered tr left right nframes stride s a)
       \<and> (rendered tr left right nframes stride s a = mem s a \<longrightarrow>
            mem (generic_generate_outputs tr d left right nframes stride t_before_gen t_after_gen s) a
              = mem s a)"
proof -
  from assms have slot: "\<not> frame_slot left right stride 0 nframes a"
    by (auto simp: frame_slot_0)
  have "mem (generic_generate_outputs tr d left right nframes stride t_before_gen t_after_gen s) a
           = (if nframes = 0 \<or> player_mutex s then mem s a
              else rendered tr left right nframes stride s a)"
  proof (cases "nframes = 0")
    case True
    then show ?thesis
      by (simp add: generic_generate_outputs_def)
  next
    case False
    then have pos: "0 < nframes"
      by (simp add: word_neq_0_conv)
    show ?thesis
    proof (cases "player_mutex s")
      case True
      with pos slot False show ?thesis
        by (simp add: generate_outputs_contended silence_loop_mem)
    next
      case free: False
      with pos slot False show ?thesis
        by (simp add: generate_outputs_mem)
    qed
  qed
  then show ?thesis
    by simp
qed

text \<open>
  The theorem for two frames with stride 3, whose samples are at 0, 1, 3 and 4, at the
  address 2, on both paths.
\<close>

theorem generate_outputs_frame_witness:
  "mem (generic_generate_outputs test_traits test_dsp 0 1 2 3 0 0 (test_globals True)) 2 = 5
   \<and> mem (generic_generate_outputs test_traits test_dsp 0 1 2 3 0 0 (test_globals False)) 2 = 5"
proof -
  have "\<not> frame_slot 0 1 3 0 2 2"
    by (simp add: frame_slot_step frame_slot_done)
  then have "\<forall>j<2::u32. (2::nat) \<noteq> 0 + unat (j * 3) \<and> 2 \<noteq> 1 + unat (j * 3)"
    by (simp add: frame_slot_0)
  from generate_outputs_frame
         [OF this, where tr = test_traits and d = test_dsp and t_before_gen = 0 and t_after_gen = 0
            and s = "test_globals True"]
       generate_outputs_frame
         [OF this, where tr = test_traits and d = test_dsp and t_before_gen = 0 and t_after_gen = 0
            and s = "test_globals False"]
  show ?thesis
    by (simp add: rendered_def test_globals_def test_traits_def)
qed



subsection \<open>What the reconfiguration functions tell their caller\<close>

text \<open>
  C5 says that every dynamic reconfiguration error is reported to the caller: that
  \<open>generic_player_dynamic_set_chip_count\<close> reports failure for an invalid chip count and
  \<open>generic_player_dynamic_set_emulator\<close> returns failure for an emulator id out of range.
  Both functions return \<^verbatim>\<open>void\<close>. With the concrete backend, the emulator id 7 is refused
  and the id 1 accepted, the chip count 0 is refused and the count 4 accepted, and each
  function gives back the same value in both cases; after the refused call the globals
  are the ones before it, with nothing but the trace of the call added.
\<close>

theorem dynamic_setters_return_no_status:
  "fst (switch_emulator test_traits (panic test_traits (player (test_globals False))) 7) < 0
   \<and> \<not> fst (switch_emulator test_traits (panic test_traits (player (test_globals False))) 1) < 0
   \<and> fst (generic_player_dynamic_set_emulator test_traits 7 (test_globals False))
       = fst (generic_player_dynamic_set_emulator test_traits 1 (test_globals False))
   \<and> snd (generic_player_dynamic_set_emulator test_traits 7 (test_globals False))
       = (test_globals False)\<lparr>trace := [Mutex_lock, Backend Panic, Backend (Switch_emulator 7), Mutex_unlock]\<rparr>
   \<and> fst (set_num_chips test_traits (panic test_traits (player (test_globals False))) 0) < 0
   \<and> \<not> fst (set_num_chips test_traits (panic test_traits (player (test_globals False))) 4) < 0
   \<and> fst (generic_player_dynamic_set_chip_count test_traits 0 (test_globals False))
       = fst (generic_player_dynamic_set_chip_count test_traits 4 (test_globals False))
   \<and> snd (generic_player_dynamic_set_chip_count test_traits 0 (test_globals False))
       = (test_globals False)\<lparr>trace := [Mutex_lock, Backend Panic, Backend (Set_num_chips 0), Mutex_unlock]\<rparr>"
  by (simp add: generic_player_dynamic_set_emulator_def generic_player_dynamic_set_chip_count_def
      test_traits_def test_globals_def effect_defs)

text \<open>
  C5, amended. Of the three functions only \<open>generic_player_dynamic_load_bank\<close> reports a
  failure of the backend: it returns \<open>False\<close> exactly when \<open>open_bank_file\<close> fails.
  \<open>generic_player_dynamic_set_emulator\<close> returns nothing; when \<open>switch_emulator\<close> refuses
  the id, the emulator id stored before stays. \<open>generic_player_dynamic_set_chip_count\<close>
  returns nothing and does not look at the status of \<open>set_num_chips\<close>: its result is made
  of the backend's new state alone.
\<close>

theorem reconfiguration_failure_reporting:
  "fst (generic_player_dynamic_load_bank tr bankfile s)
      = (\<not> fst (open_bank_file tr (panic tr (player s)) bankfile) < 0)
   \<and> (fst (switch_emulator tr (panic tr (player s)) emulator) < 0 \<longrightarrow>
        player_emulator_id (snd (generic_player_dynamic_set_emulator tr emulator s)) = player_emulator_id s)
   \<and> generic_player_dynamic_set_chip_count tr nchip s
      = ((), s\<lparr>player := snd (set_num_chips tr (panic tr (player s)) nchip),
               player_mutex := False,
               trace := trace s @ [Mutex_lock, Backend Panic, Backend (Set_num_chips nchip), Mutex_unlock]\<rparr>)"
  by (auto simp: generic_player_dynamic_set_emulator_def generic_player_dynamic_set_chip_count_def
      generic_player_dynamic_load_bank_def effect_defs Let_def split: prod.splits)

text \<open>The theorem at a bank file the backend refuses, one it accepts, and the emulator id 7.\<close>

theorem reconfiguration_failure_reporting_witness:
  "fst (generic_player_dynamic_load_bank test_traits [] (test_globals False)) = False
   \<and> fst (generic_player_dynamic_load_bank test_traits ''bank.wopl'' (test_globals False)) = True
   \<and> player_emulator_id (snd (generic_player_dynamic_set_emulator test_traits 7 (test_globals False))) = 0"
proof -
  have "fst (open_bank_file test_traits (panic test_traits (player (test_globals False))) []) < 0"
    and "\<not> fst (open_bank_file test_traits (panic test_traits (player (test_globals False))) ''bank.wopl'') < 0"
    and "fst (switch_emulator test_traits (panic test_traits (player (test_globals False))) 7) < 0"
    and "player_emulator_id (test_globals False) = 0"
    by (simp_all add: test_traits_def test_globals_def)
  with reconfiguration_failure_reporting [of test_traits "[]" "test_globals False" 7]
    reconfiguration_failure_reporting [of test_traits "''bank.wopl''" "test_globals False" 7]
  show ?thesis
    by simp
qed

end
